theory Spec2Isabelle
  imports Main
begin

section \<open>Host objects\<close>

text \<open>
  The engine's objects are kept to the fields the plot code reads or writes. A transform
  (\<open>CFrame\<close>) is a value of a type \<open>'cf\<close> left open; its composition \<open>mul\<close> is supplied
  by the host (see \<open>host\<close> below).
\<close>

record 'cf base_part =
  CFrame :: 'cf
  Anchored :: bool
  CanCollide :: bool

record 'cf model =
  PrimaryPart :: "'cf base_part option"
  Pivot :: 'cf

datatype player = Player (Name: string)

type_synonym handle = nat

text \<open>
  A \<open>PlotInstance\<close>: its child named \<open>PLATFORM_INSTANCE_NAME\<close> (if any), the children of
  its folder \<open>PLOT_STRUCTURES_FOLDER_NAME\<close> in order, each under the handle that identifies
  the object, and the next handle the engine hands out when an object is created.
\<close>

record 'cf plot_instance =
  Platform :: "'cf base_part option"
  Structures :: "(handle \<times> 'cf model) list"
  next_handle :: handle

definition GetChildren :: "'cf plot_instance \<Rightarrow> (handle \<times> 'cf model) list" where
  "GetChildren inst = Structures inst"

definition FindFirstChild_Platform :: "'cf plot_instance \<Rightarrow> 'cf base_part option" where
  "FindFirstChild_Platform inst = Platform inst"

section \<open>Catalog types (types.d.ts)\<close>

text \<open>
  Modelled from the spec: the module \<open>Currency\<close> is not among the sources; a price has
  "an amount and a currency tag", and \<open>Koins\<close> is the tag the sources name.
\<close>

datatype currency = Koins

record price =
  amount :: int
  currency :: currency

text \<open>\<open>IStructure\<close>; the field \<open>id\<close> is \<open>sid\<close> here, \<open>price.value\<close> is \<open>amount\<close>.\<close>

record 'cf istructure =
  sid :: string
  name :: string
  description :: string
  model :: "'cf model"
  price :: price

text \<open>
  \<open>IStructureInstance\<close>; the field \<open>structure\<close> is \<open>its_structure\<close> here, and the
  optional field \<open>model\<close> is \<open>model_handle\<close>: the handle of the spawned object, if any.
\<close>

record 'cf structure_instance =
  uuid :: string
  its_structure :: "'cf istructure"
  model_handle :: "handle option"

section \<open>Errors\<close>

text \<open>
  Every \<open>throw\<close> and failed assertion of the sources is a value. The arguments are what
  the source interpolates into the message.
\<close>

datatype error =
    AlreadyAssigned string
  | MissingAnchorGeometry string
  | PlacementCollision "string option"
  | MissingPlatform
  | ObjectLeakDetected "string option"
  | StructureNotFound string
  | PlotNotFound string
  | DuplicateKey string

text \<open>
  A call either returns (\<open>Done\<close>) or throws (\<open>Thrown\<close>); both carry the state the call
  leaves behind, since the code mutates before it throws.
\<close>

datatype 's outcome = Done 's | Thrown error 's

fun state_of :: "'s outcome \<Rightarrow> 's" where
  "state_of (Done s) = s"
| "state_of (Thrown e s) = s"

fun thrown :: "'s outcome \<Rightarrow> error option" where
  "thrown (Done s) = None"
| "thrown (Thrown e s) = Some e"

section \<open>The ordered container\<close>

text \<open>
  Modelled from the spec: the class \<open>LinkedList\<close> is not among the sources. The spec's
  \<open>OrderedMap\<close> is "a mapping from key K to value V preserving insertion order, with unique
  keys"; \<open>insert\<close> "fails (or overwrites, per chosen policy) if key already present" and
  appends otherwise; whether overwriting keeps the entry's place or moves it to the end is
  an open question of the spec. The policy is therefore a parameter.
\<close>

datatype dup_policy = RejectDuplicate | OverwriteInPlace | MoveToEnd

type_synonym ('k, 'v) linked_list = "('k \<times> 'v) list"

definition has_key :: "'k \<Rightarrow> ('k, 'v) linked_list \<Rightarrow> bool" where
  "has_key k xs = (k \<in> set (map fst xs))"

fun overwrite :: "'k \<Rightarrow> 'v \<Rightarrow> ('k, 'v) linked_list \<Rightarrow> ('k, 'v) linked_list" where
  "overwrite k v [] = []"
| "overwrite k v ((k', v') # xs) =
     (if k' = k then (k, v) # xs else (k', v') # overwrite k v xs)"

definition LinkedList_add ::
  "dup_policy \<Rightarrow> 'k \<Rightarrow> 'v \<Rightarrow> ('k, 'v) linked_list \<Rightarrow> ('k, 'v) linked_list option" where
  "LinkedList_add pol k v xs =
     (if has_key k xs then
        (case pol of
           RejectDuplicate \<Rightarrow> None
         | OverwriteInPlace \<Rightarrow> Some (overwrite k v xs)
         | MoveToEnd \<Rightarrow> Some (filter (\<lambda>e. fst e \<noteq> k) xs @ [(k, v)]))
      else Some (xs @ [(k, v)]))"

text \<open>
  Modelled from the spec: \<open>map(transform)\<close> "produces a new ordered sequence of transformed
  values, preserving order; does not mutate the container".
\<close>

definition LinkedList_map :: "('k \<Rightarrow> 'v \<Rightarrow> 'b) \<Rightarrow> ('k, 'v) linked_list \<Rightarrow> 'b list" where
  "LinkedList_map f xs = map (\<lambda>e. f (fst e) (snd e)) xs"

section \<open>Structure instances\<close>

text \<open>
  Modelled from the spec: the class \<open>StructureInstance\<close> is not among the sources. An
  instance is "a placed occurrence of a Structure: unique instance id (UUID), a reference to
  its Structure definition, and a live handle to its spawned representation in the host
  world". A new instance has no representation yet.
\<close>

definition StructureInstance :: "string \<Rightarrow> 'cf istructure \<Rightarrow> 'cf structure_instance" where
  "StructureInstance u s = \<lparr>uuid = u, its_structure = s, model_handle = None\<rparr>"

text \<open>
  Modelled from the spec: \<open>spawn(parent)\<close> "spawns the instance's physical representation
  into the plot's world container": a copy of the structure's template becomes the last
  child of the folder, under a new handle, which the instance keeps. The result is the
  instance as the call leaves it, the new object (its handle and its value), and the plot
  instance with the new child.
\<close>

definition spawn ::
  "'cf structure_instance \<Rightarrow> 'cf plot_instance \<Rightarrow>
     'cf structure_instance \<times> (handle \<times> 'cf model) \<times> 'cf plot_instance" where
  "spawn si inst =
     (let h = next_handle inst; m = model (its_structure si) in
      (si\<lparr>model_handle := Some h\<rparr>, (h, m),
       inst\<lparr>Structures := Structures inst @ [(h, m)], next_handle := Suc h\<rparr>))"

text \<open>
  Modelled from the spec: \<open>destroy()\<close> "destroys the structure instance's world
  representation": the object under the instance's handle leaves the folder, and the
  instance has no representation afterwards.
\<close>

definition destroy ::
  "'cf structure_instance \<Rightarrow> 'cf plot_instance \<Rightarrow> 'cf structure_instance \<times> 'cf plot_instance" where
  "destroy si inst =
     (case model_handle si of
        None \<Rightarrow> (si, inst)
      | Some h \<Rightarrow>
          (si\<lparr>model_handle := None\<rparr>,
           inst\<lparr>Structures := filter (\<lambda>c. fst c \<noteq> h) (Structures inst)\<rparr>))"

section \<open>The host\<close>

text \<open>
  What the plot code calls and the sources do not contain: the collision oracle
  \<open>hitboxIsCollidedInPlot(hitbox, plotInstance, characters)\<close>, \<open>getAllCharacters()\<close>,
  the composition of transforms \<open>CFrame.mul\<close>, and the container's policy for a key that
  is already present.
\<close>

record 'cf host =
  hitboxIsCollidedInPlot :: "'cf base_part \<Rightarrow> 'cf plot_instance \<Rightarrow> 'cf model list \<Rightarrow> bool"
  getAllCharacters :: "'cf model list"
  mul :: "'cf \<Rightarrow> 'cf \<Rightarrow> 'cf"
  policy :: dup_policy

section \<open>Plot\<close>

record 'cf plot =
  player :: "player option"
  plotInstance :: "'cf plot_instance"
  structureList :: "(string, 'cf structure_instance) linked_list"

definition new_Plot :: "'cf plot_instance \<Rightarrow> 'cf plot" where
  "new_Plot inst = \<lparr>player = None, plotInstance = inst, structureList = []\<rparr>"

text \<open>\<open>Assert.undefined(this.player, ...)\<close> throws when the player is defined.\<close>

definition assignPlayer :: "player \<Rightarrow> 'cf plot \<Rightarrow> 'cf plot outcome" where
  "assignPlayer p plot =
     (if player plot \<noteq> None then Thrown (AlreadyAssigned (Name p)) plot
      else Done (plot\<lparr>player := Some p\<rparr>))"

definition getPlayer :: "'cf plot \<Rightarrow> player option" where
  "getPlayer plot = player plot"

definition getInstance :: "'cf plot \<Rightarrow> 'cf plot_instance" where
  "getInstance plot = plotInstance plot"

definition isAssigned :: "'cf plot \<Rightarrow> bool" where
  "isAssigned plot = (player plot \<noteq> None)"

definition getPlatform :: "'cf plot \<Rightarrow> 'cf base_part option" where
  "getPlatform plot = FindFirstChild_Platform (plotInstance plot)"

text \<open>
  The loop of \<open>clear\<close>: \<open>structureList.forEach((_, value) => value.destroy())\<close>, in the
  container's order. Each instance is an object the container refers to, so the entry
  shows the destroyed instance afterwards.
\<close>

fun destroy_each ::
  "(string, 'cf structure_instance) linked_list \<Rightarrow> 'cf plot_instance \<Rightarrow>
     (string, 'cf structure_instance) linked_list \<times> 'cf plot_instance" where
  "destroy_each [] inst = ([], inst)"
| "destroy_each ((k, v) # xs) inst =
     (case destroy v inst of
        (v', inst') \<Rightarrow>
          (case destroy_each xs inst' of (xs', inst'') \<Rightarrow> ((k, v') # xs', inst'')))"

text \<open>\<open>Assert.empty(children, ...)\<close> throws when the array has an element.\<close>

definition clear :: "'cf plot \<Rightarrow> 'cf plot outcome" where
  "clear plot =
     (case destroy_each (structureList plot) (plotInstance plot) of
        (xs', inst') \<Rightarrow>
          (let plot' = plot\<lparr>plotInstance := inst', structureList := xs'\<rparr> in
           if GetChildren inst' = [] then Done plot'
           else Thrown (ObjectLeakDetected (map_option Name (player plot'))) plot'))"

definition unassignPlayer :: "'cf plot \<Rightarrow> 'cf plot outcome" where
  "unassignPlayer plot = (if player plot = None then Done plot else clear plot)"

text \<open>Writing to the object under a handle of the folder.\<close>

definition update_child ::
  "handle \<Rightarrow> ('cf model \<Rightarrow> 'cf model) \<Rightarrow> 'cf plot_instance \<Rightarrow> 'cf plot_instance" where
  "update_child h f inst =
     inst\<lparr>Structures := map (\<lambda>c. if fst c = h then (fst c, f (snd c)) else c) (Structures inst)\<rparr>"

text \<open>
  \<open>PivotTo\<close> moves the pivot of the object; the engine moves the object's parts along,
  which the model does not follow.
\<close>

definition PivotTo :: "'cf \<Rightarrow> 'cf model \<Rightarrow> 'cf model" where
  "PivotTo cf m = m\<lparr>Pivot := cf\<rparr>"

text \<open>
  The two writes \<open>newStructure.PrimaryPart.Anchored = true\<close> and
  \<open>newStructure.PrimaryPart.CanCollide = false\<close>.
\<close>

definition freeze_part :: "'cf model \<Rightarrow> 'cf model" where
  "freeze_part m =
     m\<lparr>PrimaryPart := map_option (\<lambda>pp. pp\<lparr>Anchored := True, CanCollide := False\<rparr>) (PrimaryPart m)\<rparr>"

text \<open>
  The end of \<open>addStructure\<close>: \<open>newStructure.PivotTo(cframe)\<close>, then
  \<open>this.structureList.add(structureInstance.uuid, structureInstance)\<close>, the instance being
  as \<open>spawn\<close> left it. A container that refuses the key throws.
\<close>

definition pivot_and_add ::
  "'cf host \<Rightarrow> 'cf structure_instance \<Rightarrow> handle \<Rightarrow> 'cf \<Rightarrow> 'cf plot \<Rightarrow> 'cf plot outcome" where
  "pivot_and_add H si h cframe plot =
     (let plot' = plot\<lparr>plotInstance := update_child h (PivotTo cframe) (plotInstance plot)\<rparr> in
      case LinkedList_add (policy H) (uuid si) si (structureList plot') of
        None \<Rightarrow> Thrown (DuplicateKey (uuid si)) plot'
      | Some xs' \<Rightarrow> Done (plot'\<lparr>structureList := xs'\<rparr>))"

text \<open>
  \<open>addStructure(structureInstance, cframe, positionRelativeToPlatform)\<close>, statement by
  statement. The instance is the caller's object as it is when the call is made; it is
  taken not to be an object the container already refers to. The check of
  \<open>newStructure.PrimaryPart\<close> reads the spawned object.
\<close>

definition addStructure ::
  "'cf host \<Rightarrow> 'cf structure_instance \<Rightarrow> 'cf \<Rightarrow> bool \<Rightarrow> 'cf plot \<Rightarrow> 'cf plot outcome" where
  "addStructure H structureInstance cframe positionRelativeToPlatform plot =
     (case PrimaryPart (model (its_structure structureInstance)) of
        None \<Rightarrow> Thrown (MissingAnchorGeometry (sid (its_structure structureInstance))) plot
      | Some tempHitbox \<Rightarrow>
          if hitboxIsCollidedInPlot H tempHitbox (plotInstance plot) (getAllCharacters H)
          then Thrown (PlacementCollision (map_option Name (player plot))) plot
          else
            (case spawn structureInstance (plotInstance plot) of
               (si', (h, newStructure), inst1) \<Rightarrow>
                 (case PrimaryPart newStructure of
                    None \<Rightarrow>
                      Thrown (MissingAnchorGeometry (sid (its_structure structureInstance)))
                        (plot\<lparr>plotInstance := inst1\<rparr>)
                  | Some _ \<Rightarrow>
                      (let plot2 = plot\<lparr>plotInstance := update_child h freeze_part inst1\<rparr> in
                       if positionRelativeToPlatform then
                         (case getPlatform plot2 of
                            Some platform \<Rightarrow>
                              pivot_and_add H si' h (mul H (CFrame platform) cframe) plot2
                          | None \<Rightarrow> Thrown MissingPlatform plot2)
                       else pivot_and_add H si' h cframe plot2))))"

text \<open>
  \<open>serialize()\<close>, returning \<open>SerializedPlotInstance\<close>, whose field \<open>structures\<close> is
  \<open>serialized_structures\<close> here. The instance's own serializer is not among the sources; it
  is the parameter \<open>ser\<close>, which receives the platform's transform, or nothing when the plot
  has no platform, and may read the world the instance's handle points into.
\<close>

record 'ser serialized_plot_instance =
  serialized_structures :: "'ser list"

definition serialize ::
  "('cf option \<Rightarrow> 'cf plot_instance \<Rightarrow> 'cf structure_instance \<Rightarrow> 'ser) \<Rightarrow> 'cf plot \<Rightarrow>
     'ser serialized_plot_instance" where
  "serialize ser plot =
     (let platformCFrame = map_option CFrame (FindFirstChild_Platform (plotInstance plot))
      in \<lparr>serialized_structures =
           LinkedList_map (\<lambda>_ s. ser platformCFrame (plotInstance plot) s) (structureList plot)\<rparr>)"

definition getEmptySerializedPlotInstance :: "'ser serialized_plot_instance" where
  "getEmptySerializedPlotInstance = \<lparr>serialized_structures = []\<rparr>"

section \<open>Catalog\<close>

text \<open>\<open>IStructureCategory\<close>; \<open>id\<close> and \<open>description\<close> are \<open>cat_id\<close> and \<open>cat_description\<close>.\<close>

record 'cf structure_category =
  cat_id :: string
  icon :: string
  verboseName :: string
  verboseNamePlural :: string
  cat_description :: string
  structures :: "'cf istructure list"

text \<open>
  Modelled from the spec: the class \<open>BaseCategory\<close>, which implements the queries of
  \<open>IStructureCategory\<close>, is not among the sources. \<open>getStructureById(id)\<close> is a "linear or
  indexed lookup; returns the Structure or not found".
\<close>

definition category_getStructureById ::
  "'cf structure_category \<Rightarrow> string \<Rightarrow> 'cf istructure option" where
  "category_getStructureById c i = find (\<lambda>s. sid s = i) (structures c)"

text \<open>
  Modelled from the spec: the module \<open>get-structures\<close> is not among the sources.
  "Orchestration queries the catalog by structure id when resolving a placement request":
  the categories of \<open>StructureCategories\<close> are asked in order.
\<close>

fun getStructureById :: "'cf structure_category list \<Rightarrow> string \<Rightarrow> 'cf istructure option" where
  "getStructureById [] i = None"
| "getStructureById (c # cs) i =
     (case category_getStructureById c i of
        Some s \<Rightarrow> Some s
      | None \<Rightarrow> getStructureById cs i)"

text \<open>
  The structure \<open>road-intersection\<close>. Its template is looked up in \<open>MODELS_FOLDER\<close>, which
  is not among the sources, so it is a parameter.
\<close>

definition road_intersection :: "'cf model \<Rightarrow> 'cf istructure" where
  "road_intersection m =
     \<lparr>sid = ''road-intersection'',
      name = ''Intersection'',
      description = ''An intersection.'',
      model = m,
      price = \<lparr>amount = 100, currency = Koins\<rparr>\<rparr>"

section \<open>PlotService\<close>

text \<open>
  Modelled from the spec: \<open>PlotFactory\<close> is not among the sources. It holds the plots
  loaded from the world; a player's plot is the plot assigned to that player
  ("orchestration assigns an unassigned Plot" to a joining player). The result is the
  plot's position among the factory's plots.
\<close>

fun getPlayersPlot :: "player \<Rightarrow> 'cf plot list \<Rightarrow> nat option" where
  "getPlayersPlot p [] = None"
| "getPlayersPlot p (x # xs) =
     (if player x = Some p then Some 0 else map_option Suc (getPlayersPlot p xs))"

text \<open>What a call on the plot at position \<open>i\<close> leaves in the factory.\<close>

fun on_plot :: "nat \<Rightarrow> 'cf plot list \<Rightarrow> 'cf plot outcome \<Rightarrow> 'cf plot list outcome" where
  "on_plot i plots (Done p') = Done (plots[i := p'])"
| "on_plot i plots (Thrown e p') = Thrown e (plots[i := p'])"

text \<open>
  \<open>placeStructure(player, structureId, cframe, structureUUID?)\<close>: two assertions, then
  \<open>structureUUID ?? ""\<close> and the call of \<open>addStructure\<close> with two arguments, so that
  \<open>positionRelativeToPlatform\<close> has its default \<open>false\<close>.
\<close>

definition placeStructure ::
  "'cf host \<Rightarrow> 'cf structure_category list \<Rightarrow> player \<Rightarrow> string \<Rightarrow> 'cf \<Rightarrow> string option \<Rightarrow>
     'cf plot list \<Rightarrow> 'cf plot list outcome" where
  "placeStructure H catalog p structureId cframe structureUUID plots =
     (case getPlayersPlot p plots of
        None \<Rightarrow> Thrown (PlotNotFound (Name p)) plots
      | Some i \<Rightarrow>
          (case getStructureById catalog structureId of
             None \<Rightarrow> Thrown (StructureNotFound structureId) plots
           | Some s \<Rightarrow>
               (let uuid = (case structureUUID of Some u \<Rightarrow> u | None \<Rightarrow> '''') in
                on_plot i plots
                  (addStructure H (StructureInstance uuid s) cframe False (plots ! i)))))"

section \<open>An example world\<close>

text \<open>
  Transforms are positions on a line, composed by addition. The oracle reports a hitbox
  that stands where a child of the plot's folder stands.
\<close>

definition line_host :: "int host" where
  "line_host =
     \<lparr>hitboxIsCollidedInPlot =
        (\<lambda>hitbox inst chars. CFrame hitbox \<in> set (map (\<lambda>c. Pivot (snd c)) (Structures inst))),
      getAllCharacters = [],
      mul = (\<lambda>a b. a + b),
      policy = OverwriteInPlace\<rparr>"

definition road_template :: "int model" where
  "road_template =
     \<lparr>PrimaryPart = Some \<lparr>CFrame = 1000, Anchored = False, CanCollide = True\<rparr>, Pivot = 1000\<rparr>"

definition bare_template :: "int model" where
  "bare_template = \<lparr>PrimaryPart = None, Pivot = 1000\<rparr>"

definition road_category :: "int structure_category" where
  "road_category =
     \<lparr>cat_id = ''road'', icon = ''rbxassetid://0'', verboseName = ''Road'',
      verboseNamePlural = ''Roads'', cat_description = ''Roads.'',
      structures = [road_intersection road_template]\<rparr>"

definition platform_instance :: "int plot_instance" where
  "platform_instance =
     \<lparr>Platform = Some \<lparr>CFrame = 40, Anchored = True, CanCollide = True\<rparr>,
      Structures = [], next_handle = 0\<rparr>"

definition alice :: player where
  "alice = Player ''Alice''"

definition bob :: player where
  "bob = Player ''Bob''"

text \<open>A plot of Alice's with one intersection placed at position 5.\<close>

definition alice_plot :: "int plot" where
  "alice_plot =
     \<lparr>player = Some alice,
      plotInstance =
        \<lparr>Platform = None,
         Structures =
           [(0, \<lparr>PrimaryPart = Some \<lparr>CFrame = 1000, Anchored = True, CanCollide = False\<rparr>,
                 Pivot = 5\<rparr>)],
         next_handle = 1\<rparr>,
      structureList =
        [(''a'', \<lparr>uuid = ''a'', its_structure = road_intersection road_template,
                  model_handle = Some 0\<rparr>)]\<rparr>"

text \<open>
  The same plot with a second object in its folder that no entry of the container refers
  to, resting where the template rests.
\<close>

definition orphan_plot :: "int plot" where
  "orphan_plot =
     alice_plot\<lparr>plotInstance :=
       \<lparr>Platform = None,
        Structures =
          [(0, \<lparr>PrimaryPart = Some \<lparr>CFrame = 1000, Anchored = True, CanCollide = False\<rparr>,
                Pivot = 5\<rparr>),
           (1, \<lparr>PrimaryPart = Some \<lparr>CFrame = 1000, Anchored = True, CanCollide = False\<rparr>,
                Pivot = 1000\<rparr>)],
        next_handle = 2\<rparr>\<rparr>"

definition platform_plot :: "int plot" where
  "platform_plot = \<lparr>player = Some bob, plotInstance = platform_instance, structureList = []\<rparr>"

definition new_road :: "string \<Rightarrow> int structure_instance" where
  "new_road u = StructureInstance u (road_intersection road_template)"

text \<open>
  A serializer for the example world: the instance's id and the position of its object,
  counted from the platform when there is one.
\<close>

definition line_serializer ::
  "int option \<Rightarrow> int plot_instance \<Rightarrow> int structure_instance \<Rightarrow> string \<times> int option" where
  "line_serializer platformCFrame inst si =
     (uuid si,
      case model_handle si of
        None \<Rightarrow> None
      | Some h \<Rightarrow>
          (case map_of (Structures inst) h of
             None \<Rightarrow> None
           | Some m \<Rightarrow>
               Some (case platformCFrame of None \<Rightarrow> Pivot m | Some c \<Rightarrow> Pivot m - c)))"

section \<open>Auxiliary facts\<close>

lemmas world_defs =
  line_host_def road_template_def bare_template_def road_category_def
  platform_instance_def alice_def bob_def alice_plot_def orphan_plot_def platform_plot_def
  new_road_def StructureInstance_def road_intersection_def

lemmas plot_defs =
  addStructure_def spawn_def pivot_and_add_def update_child_def freeze_part_def PivotTo_def
  getPlatform_def FindFirstChild_Platform_def GetChildren_def LinkedList_add_def has_key_def
  Let_def

lemma spawn_simps:
  "spawn si inst =
     (si\<lparr>model_handle := Some (next_handle inst)\<rparr>,
      (next_handle inst, model (its_structure si)),
      inst\<lparr>Structures := Structures inst @ [(next_handle inst, model (its_structure si))],
           next_handle := Suc (next_handle inst)\<rparr>)"
  by (simp add: spawn_def Let_def)

subsection \<open>The container\<close>

lemma overwrite_keys: "map fst (overwrite k v xs) = map fst xs"
  by (induction xs) auto

lemma LinkedList_add_keys:
  assumes "LinkedList_add pol k v xs = Some ys"
  shows "set (map fst ys) = insert k (set (map fst xs))"
proof (cases "has_key k xs")
  case False
  then show ?thesis using assms by (auto simp: LinkedList_add_def)
next
  case True
  then have k: "k \<in> set (map fst xs)" by (simp add: has_key_def)
  show ?thesis
  proof (cases pol)
    case RejectDuplicate
    then show ?thesis using assms True by (simp add: LinkedList_add_def)
  next
    case OverwriteInPlace
    then have "ys = overwrite k v xs" using assms True by (simp add: LinkedList_add_def)
    then have "map fst ys = map fst xs" by (simp add: overwrite_keys)
    then show ?thesis using k by auto
  next
    case MoveToEnd
    then have "ys = filter (\<lambda>e. fst e \<noteq> k) xs @ [(k, v)]"
      using assms True by (simp add: LinkedList_add_def)
    then show ?thesis by force
  qed
qed

subsection \<open>A successful \<open>addStructure\<close>\<close>

lemma pivot_and_add_Done:
  "pivot_and_add H si h cf plot = Done plot' \<Longrightarrow>
     LinkedList_add (policy H) (uuid si) si (structureList plot) = Some (structureList plot')"
  by (auto simp: pivot_and_add_def Let_def split: option.splits)

lemma addStructure_Done:
  "addStructure H si cf rel plot = Done plot' \<Longrightarrow>
     LinkedList_add (policy H) (uuid si)
       (si\<lparr>model_handle := Some (next_handle (plotInstance plot))\<rparr>) (structureList plot) =
     Some (structureList plot')"
  by (auto simp: addStructure_def spawn_simps Let_def
      split: option.splits if_splits dest!: pivot_and_add_Done)

lemma addStructure_Done_keys:
  "addStructure H si cf rel plot = Done plot' \<Longrightarrow>
     set (map fst (structureList plot')) = insert (uuid si) (set (map fst (structureList plot)))"
  by (drule addStructure_Done) (erule LinkedList_add_keys)

subsection \<open>The loop of \<open>clear\<close>\<close>

lemma destroy_Structures:
  "destroy v inst = (v', inst') \<Longrightarrow>
     Structures inst' = filter (\<lambda>c. Some (fst c) \<noteq> model_handle v) (Structures inst)"
  by (auto simp: destroy_def split: option.splits)

lemma destroy_each_Structures:
  "destroy_each xs inst = (xs', inst') \<Longrightarrow>
     Structures inst' =
       filter (\<lambda>c. Some (fst c) \<notin> set (map (\<lambda>e. model_handle (snd e)) xs)) (Structures inst)"
proof (induction xs arbitrary: inst xs' inst')
  case Nil
  then show ?case by simp
next
  case (Cons x xs)
  obtain k v where x: "x = (k, v)" by (cases x)
  obtain v1 inst1 where d: "destroy v inst = (v1, inst1)" by (cases "destroy v inst")
  obtain xs2 inst2 where e: "destroy_each xs inst1 = (xs2, inst2)"
    by (cases "destroy_each xs inst1")
  have i: "inst' = inst2" using Cons.prems by (simp add: x d e)
  have "Structures inst2 =
      filter (\<lambda>c. Some (fst c) \<notin> set (map (\<lambda>e. model_handle (snd e)) xs)) (Structures inst1)"
    by (rule Cons.IH [OF e])
  also have "Structures inst1 = filter (\<lambda>c. Some (fst c) \<noteq> model_handle v) (Structures inst)"
    by (rule destroy_Structures [OF d])
  finally show ?case
    by (auto simp: i x intro: filter_cong)
qed

lemma destroy_each_keys:
  "destroy_each xs inst = (xs', inst') \<Longrightarrow> map fst xs' = map fst xs"
  by (induction xs arbitrary: inst xs' inst') (auto split: prod.splits)

lemma unassignPlayer_keeps_player: "player (state_of (unassignPlayer plot)) = player plot"
  by (auto simp: unassignPlayer_def clear_def Let_def split: prod.splits)

lemma unassignPlayer_keeps_keys:
  "map fst (structureList (state_of (unassignPlayer plot))) = map fst (structureList plot)"
  by (auto simp: unassignPlayer_def clear_def Let_def split: prod.splits dest: destroy_each_keys)

subsection \<open>The factory\<close>

lemma getPlayersPlot_Some:
  "getPlayersPlot p plots = Some i \<Longrightarrow> i < length plots \<and> player (plots ! i) = Some p"
  by (induction plots arbitrary: i) (auto split: if_splits)

lemma getPlayersPlot_None:
  "getPlayersPlot p plots = None \<longleftrightarrow> Some p \<notin> set (map player plots)"
  by (induction plots) auto

lemma on_plot_thrown: "thrown (on_plot i plots r) = thrown r"
  by (cases r) simp_all

lemma on_plot_state: "state_of (on_plot i plots r) = plots[i := state_of r]"
  by (cases r) simp_all

subsection \<open>Runs in the example world\<close>

lemma add_on_orphan_rel:
  "addStructure line_host (new_road ''c'') 7 True orphan_plot =
     Thrown (PlacementCollision (Some ''Alice'')) orphan_plot"
  by (simp add: plot_defs world_defs)

lemma add_at_7:
  "thrown (addStructure line_host (new_road ''b'') 7 False alice_plot) = None \<and>
   map fst (structureList (state_of (addStructure line_host (new_road ''b'') 7 False alice_plot))) =
     [''a'', ''b''] \<and>
   map (\<lambda>c. Pivot (snd c))
     (GetChildren (plotInstance (state_of (addStructure line_host (new_road ''b'') 7 False alice_plot)))) =
     [5, 7]"
  by (simp add: plot_defs world_defs)

lemma add_without_platform:
  "addStructure line_host (new_road ''b'') 7 True alice_plot = Thrown MissingPlatform orphan_plot"
  by (simp add: plot_defs world_defs)

lemma add_on_orphan:
  "addStructure line_host (new_road ''c'') 7 False orphan_plot =
     Thrown (PlacementCollision (Some ''Alice'')) orphan_plot"
  by (simp add: plot_defs world_defs)

lemma add_bare:
  "addStructure line_host (StructureInstance ''d'' (road_intersection bare_template)) 7 False
     alice_plot =
   Thrown (MissingAnchorGeometry ''road-intersection'') alice_plot"
  by (simp add: plot_defs world_defs)

lemma clear_orphan:
  "thrown (clear orphan_plot) = Some (ObjectLeakDetected (Some ''Alice'')) \<and>
   map fst (GetChildren (plotInstance (state_of (clear orphan_plot)))) = [1]"
  by (simp add: clear_def destroy_def plot_defs world_defs)

lemma add_on_platform:
  "thrown (addStructure line_host (new_road ''b'') 2 True platform_plot) = None \<and>
   serialized_structures (serialize line_serializer
     (state_of (addStructure line_host (new_road ''b'') 2 True platform_plot))) =
     [(''b'', Some 2)]"
  by (simp add: serialize_def LinkedList_map_def line_serializer_def plot_defs world_defs)

lemma addStructure_collision_ignores_transform:
  "(thrown (addStructure H si cf rel plot) = Some (PlacementCollision n)) =
   (thrown (addStructure H si cf' rel' plot) = Some (PlacementCollision n))"
  by (auto simp: addStructure_def spawn_simps Let_def pivot_and_add_def
      split: option.splits if_splits)

section \<open>Properties of the plot\<close>

text \<open>
  C1. Whenever \<open>addStructure\<close> throws, whatever the reason, the plot's structure map is
  the one it had before the call: the container is written by the last statement only.
  When the throw is the placement collision, nothing of the plot has changed at all.
\<close>

theorem addStructure_failure_keeps_structureList:
  "addStructure H si cf rel plot = Thrown e plot' \<Longrightarrow>
     structureList plot' = structureList plot \<and>
     (\<forall>n. e = PlacementCollision n \<longrightarrow> plot' = plot)"
  by (auto simp: addStructure_def spawn_simps Let_def pivot_and_add_def
      split: option.splits if_splits)

theorem addStructure_failure_keeps_structureList_witness:
  "addStructure line_host (StructureInstance ''d'' (road_intersection bare_template)) 7 False
     alice_plot =
     Thrown (MissingAnchorGeometry ''road-intersection'') alice_plot \<and>
   addStructure line_host (new_road ''b'') 7 True alice_plot = Thrown MissingPlatform orphan_plot \<and>
   structureList orphan_plot = structureList alice_plot \<and>
   plotInstance orphan_plot \<noteq> plotInstance alice_plot \<and>
   addStructure line_host (new_road ''c'') 7 False orphan_plot =
     Thrown (PlacementCollision (Some ''Alice'')) orphan_plot"
proof -
  note a = add_without_platform and b = add_on_orphan and c = add_bare
  from addStructure_failure_keeps_structureList [OF a]
  have 1: "structureList orphan_plot = structureList alice_plot" by simp
  from addStructure_failure_keeps_structureList [OF b]
  have 2: "orphan_plot = orphan_plot" by simp
  have 3: "plotInstance orphan_plot \<noteq> plotInstance alice_plot"
    by (simp add: world_defs)
  from a b c 1 2 3 show ?thesis by blast
qed

text \<open>
  C4. On a plot that already has a player, \<open>assignPlayer\<close> throws \<open>AlreadyAssigned\<close> and
  the plot, its player reference included, is as it was.
\<close>

theorem assignPlayer_already_assigned:
  "player plot = Some q \<Longrightarrow>
     assignPlayer p plot = Thrown (AlreadyAssigned (Name p)) plot \<and>
     player (state_of (assignPlayer p plot)) = Some q"
  by (simp add: assignPlayer_def)

theorem assignPlayer_already_assigned_witness:
  "player alice_plot = Some alice \<and>
   assignPlayer bob alice_plot = Thrown (AlreadyAssigned ''Bob'') alice_plot \<and>
   player (state_of (assignPlayer bob alice_plot)) = Some alice"
proof -
  have h: "player alice_plot = Some alice"
    by (simp add: alice_plot_def)
  from assignPlayer_already_assigned [OF h, of bob] show ?thesis
    using h by (simp add: bob_def)
qed

text \<open>
  C5. After \<open>clear\<close> the folder holds exactly the children no registered instance refers
  to, so the object of every registered instance is gone; the call returns normally only
  if the folder is then empty, and throws \<open>ObjectLeakDetected\<close> otherwise.
\<close>

theorem clear_destroys_then_checks:
  "GetChildren (plotInstance (state_of (clear plot))) =
     filter (\<lambda>c. Some (fst c) \<notin> set (map (\<lambda>e. model_handle (snd e)) (structureList plot)))
       (GetChildren (plotInstance plot)) \<and>
   (\<forall>e \<in> set (structureList plot). \<forall>h. model_handle (snd e) = Some h \<longrightarrow>
      h \<notin> set (map fst (GetChildren (plotInstance (state_of (clear plot)))))) \<and>
   thrown (clear plot) =
     (if GetChildren (plotInstance (state_of (clear plot))) = [] then None
      else Some (ObjectLeakDetected (map_option Name (player plot))))"
proof -
  obtain xs' inst' where d: "destroy_each (structureList plot) (plotInstance plot) = (xs', inst')"
    by (cases "destroy_each (structureList plot) (plotInstance plot)")
  have s: "Structures inst' =
      filter (\<lambda>c. Some (fst c) \<notin> set (map (\<lambda>e. model_handle (snd e)) (structureList plot)))
        (Structures (plotInstance plot))"
    by (rule destroy_each_Structures [OF d])
  have st: "plotInstance (state_of (clear plot)) = inst'"
    by (simp add: clear_def d Let_def)
  have th: "thrown (clear plot) =
      (if GetChildren inst' = [] then None
       else Some (ObjectLeakDetected (map_option Name (player plot))))"
    by (simp add: clear_def d Let_def)
  show ?thesis
    unfolding st th using s by (force simp: GetChildren_def)
qed

theorem clear_destroys_then_checks_witness:
  "model_handle (snd (hd (structureList orphan_plot))) = Some 0 \<and>
   0 \<notin> set (map fst (GetChildren (plotInstance (state_of (clear orphan_plot))))) \<and>
   map fst (GetChildren (plotInstance (state_of (clear orphan_plot)))) = [1] \<and>
   thrown (clear orphan_plot) = Some (ObjectLeakDetected (Some ''Alice''))"
proof -
  have e: "hd (structureList orphan_plot) \<in> set (structureList orphan_plot)"
    by (simp add: world_defs)
  have h: "model_handle (snd (hd (structureList orphan_plot))) = Some 0"
    by (simp add: world_defs)
  from clear_destroys_then_checks [of orphan_plot] e h
  have "0 \<notin> set (map fst (GetChildren (plotInstance (state_of (clear orphan_plot)))))"
    by blast
  then show ?thesis using h clear_orphan by simp
qed

text \<open>
  C6. \<open>serialize\<close> returns the empty list for an empty structure map and, in general, one
  entry per registered instance in the container's order; each is made by the instance's
  serializer from the platform's transform, or from no transform when the plot has no
  platform. The container's order is the order of insertion: an instance added under a
  key not yet present becomes the last entry.
\<close>

theorem serialize_in_insertion_order:
  "(structureList plot = [] \<longrightarrow> serialize ser plot = getEmptySerializedPlotInstance) \<and>
   serialized_structures (serialize ser plot) =
     map (\<lambda>e. ser (map_option CFrame (getPlatform plot)) (plotInstance plot) (snd e))
       (structureList plot) \<and>
   (getPlatform plot = None \<longrightarrow>
      serialized_structures (serialize ser plot) =
        map (\<lambda>e. ser None (plotInstance plot) (snd e)) (structureList plot)) \<and>
   (\<forall>plot'. addStructure H si cf rel plot = Done plot' \<and> \<not> has_key (uuid si) (structureList plot) \<longrightarrow>
      structureList plot' =
        structureList plot @
          [(uuid si, si\<lparr>model_handle := Some (next_handle (plotInstance plot))\<rparr>)])"
  by (auto simp: serialize_def LinkedList_map_def getEmptySerializedPlotInstance_def
      getPlatform_def Let_def LinkedList_add_def dest!: addStructure_Done)

theorem serialize_in_insertion_order_witness:
  "structureList platform_plot = [] \<and>
   serialize line_serializer platform_plot = \<lparr>serialized_structures = []\<rparr> \<and>
   getPlatform alice_plot = None \<and>
   serialized_structures (serialize line_serializer alice_plot) = [(''a'', Some 5)] \<and>
   thrown (addStructure line_host (new_road ''b'') 2 True platform_plot) = None \<and>
   \<not> has_key (uuid (new_road ''b'')) (structureList platform_plot) \<and>
   map fst (structureList (state_of (addStructure line_host (new_road ''b'') 2 True platform_plot))) =
     [''b'']"
proof -
  let ?r = "addStructure line_host (new_road ''b'') 2 True platform_plot"
  have e: "structureList platform_plot = []"
    by (simp add: world_defs)
  have n: "getPlatform alice_plot = None"
    by (simp add: getPlatform_def FindFirstChild_Platform_def world_defs)
  have k: "\<not> has_key (uuid (new_road ''b'')) (structureList platform_plot)"
    by (simp add: has_key_def world_defs)
  have t: "thrown ?r = None"
    using add_on_platform by simp
  then have d: "?r = Done (state_of ?r)"
    by (cases ?r) simp_all
  note w = serialize_in_insertion_order
  from w [of platform_plot line_serializer] e
  have 1: "serialize line_serializer platform_plot = \<lparr>serialized_structures = []\<rparr>"
    by (simp add: getEmptySerializedPlotInstance_def)
  from w [of alice_plot line_serializer] n
  have "serialized_structures (serialize line_serializer alice_plot) =
      map (\<lambda>e. line_serializer None (plotInstance alice_plot) (snd e)) (structureList alice_plot)"
    by blast
  then have 2: "serialized_structures (serialize line_serializer alice_plot) = [(''a'', Some 5)]"
    by (simp add: line_serializer_def world_defs)
  from w [of platform_plot line_serializer line_host "new_road ''b''" 2 True] d k
  have "structureList (state_of ?r) =
      structureList platform_plot @
        [(uuid (new_road ''b''),
          (new_road ''b'')\<lparr>model_handle := Some (next_handle (plotInstance platform_plot))\<rparr>)]"
    by blast
  then have 3: "map fst (structureList (state_of ?r)) = [''b'']"
    by (simp add: world_defs)
  from e 1 n 2 t k 3 show ?thesis by blast
qed

text \<open>
  C9, as amended. On a plot without a platform, \<open>addStructure\<close> with the flag set never
  succeeds. It throws \<open>MissingPlatform\<close> exactly when the instance's template has a primary
  part and the oracle reports no collision, and by then the object has been spawned: the
  folder has one child more, the new object is its last child, and the structure map is
  the one before the call. When one of the two earlier checks fails, the call throws
  before anything is spawned and the plot is as it was.
\<close>

theorem addStructure_missing_platform_after_spawn:
  assumes "getPlatform plot = None"
  shows "thrown (addStructure H si cf True plot) \<noteq> None \<and>
    (thrown (addStructure H si cf True plot) = Some MissingPlatform \<longleftrightarrow>
       (\<exists>hb. PrimaryPart (model (its_structure si)) = Some hb \<and>
             \<not> hitboxIsCollidedInPlot H hb (plotInstance plot) (getAllCharacters H))) \<and>
    (thrown (addStructure H si cf True plot) = Some MissingPlatform \<longrightarrow>
       structureList (state_of (addStructure H si cf True plot)) = structureList plot \<and>
       length (GetChildren (plotInstance (state_of (addStructure H si cf True plot)))) =
         Suc (length (GetChildren (plotInstance plot))) \<and>
       last (GetChildren (plotInstance (state_of (addStructure H si cf True plot)))) =
         (next_handle (plotInstance plot), freeze_part (model (its_structure si)))) \<and>
    (thrown (addStructure H si cf True plot) \<noteq> Some MissingPlatform \<longrightarrow>
       state_of (addStructure H si cf True plot) = plot)"
  using assms
  by (auto simp: addStructure_def spawn_simps Let_def getPlatform_def FindFirstChild_Platform_def
      update_child_def GetChildren_def split: option.splits if_splits)

theorem addStructure_missing_platform_after_spawn_witness:
  "getPlatform alice_plot = None \<and>
   thrown (addStructure line_host (new_road ''b'') 7 True alice_plot) = Some MissingPlatform \<and>
   structureList (state_of (addStructure line_host (new_road ''b'') 7 True alice_plot)) =
     structureList alice_plot \<and>
   length (GetChildren (plotInstance (state_of (addStructure line_host (new_road ''b'') 7 True alice_plot)))) =
     Suc (length (GetChildren (plotInstance alice_plot))) \<and>
   fst (last (GetChildren (plotInstance (state_of (addStructure line_host (new_road ''b'') 7 True alice_plot))))) = 1 \<and>
   getPlatform orphan_plot = None \<and>
   thrown (addStructure line_host (new_road ''c'') 7 True orphan_plot) \<noteq> Some MissingPlatform \<and>
   state_of (addStructure line_host (new_road ''c'') 7 True orphan_plot) = orphan_plot"
proof -
  let ?r = "addStructure line_host (new_road ''b'') 7 True alice_plot"
  let ?q = "addStructure line_host (new_road ''c'') 7 True orphan_plot"
  have n: "getPlatform alice_plot = None"
    by (simp add: getPlatform_def FindFirstChild_Platform_def world_defs)
  have t: "thrown ?r = Some MissingPlatform"
    by (simp add: add_without_platform)
  have h: "next_handle (plotInstance alice_plot) = 1"
    by (simp add: world_defs)
  from addStructure_missing_platform_after_spawn [OF n, of line_host "new_road ''b''" 7] t
  have "structureList (state_of ?r) = structureList alice_plot \<and>
      length (GetChildren (plotInstance (state_of ?r))) =
        Suc (length (GetChildren (plotInstance alice_plot))) \<and>
      last (GetChildren (plotInstance (state_of ?r))) =
        (next_handle (plotInstance alice_plot),
         freeze_part (model (its_structure (new_road ''b''))))"
    by blast
  then have 1: "structureList (state_of ?r) = structureList alice_plot \<and>
      length (GetChildren (plotInstance (state_of ?r))) =
        Suc (length (GetChildren (plotInstance alice_plot))) \<and>
      fst (last (GetChildren (plotInstance (state_of ?r)))) = 1"
    using h by simp
  have m: "getPlatform orphan_plot = None"
    by (simp add: getPlatform_def FindFirstChild_Platform_def world_defs)
  have u: "thrown ?q \<noteq> Some MissingPlatform"
    by (simp add: add_on_orphan_rel)
  from addStructure_missing_platform_after_spawn [OF m, of line_host "new_road ''c''" 7] u
  have 2: "state_of ?q = orphan_plot"
    by blast
  from n t 1 m u 2 show ?thesis by blast
qed

text \<open>
  C9, as first stated, for every call with the flag set on a plot without a platform: the
  plot \<open>orphan_plot\<close> has no platform, the call with the flag set throws the placement
  collision, and nothing has been spawned: the folder and the whole plot are as before.
\<close>

theorem addStructure_missing_platform_counterexample:
  "getPlatform orphan_plot = None \<and>
   thrown (addStructure line_host (new_road ''c'') 7 True orphan_plot) =
     Some (PlacementCollision (Some ''Alice'')) \<and>
   GetChildren (plotInstance (state_of (addStructure line_host (new_road ''c'') 7 True orphan_plot))) =
     GetChildren (plotInstance orphan_plot) \<and>
   state_of (addStructure line_host (new_road ''c'') 7 True orphan_plot) = orphan_plot"
  by (simp add: add_on_orphan_rel) (simp add: getPlatform_def FindFirstChild_Platform_def world_defs)

section \<open>Properties of the catalog and the service\<close>

text \<open>
  C7. In a category whose structures have distinct ids, that holds the structure
  \<open>road-intersection\<close> (price 100 Koins) and none with the id \<open>nonexistent\<close>,
  \<open>getStructureById\<close> returns that structure for its id and nothing for \<open>nonexistent\<close>.
\<close>

theorem getStructureById_scenario:
  assumes "road_intersection m \<in> set (structures c)"
    and "distinct (map sid (structures c))"
    and "''nonexistent'' \<notin> set (map sid (structures c))"
  shows "category_getStructureById c ''road-intersection'' = Some (road_intersection m) \<and>
    amount (price (road_intersection m)) = 100 \<and>
    currency (price (road_intersection m)) = Koins \<and>
    category_getStructureById c ''nonexistent'' = None"
proof -
  have a: "find (\<lambda>s. sid s = sid x) xs = Some x" if "x \<in> set xs" "distinct (map sid xs)"
    for x :: "'a istructure" and xs
    using that by (induction xs) auto
  have "sid (road_intersection m) = ''road-intersection''"
    by (simp add: road_intersection_def)
  with a [OF assms(1,2)]
  have "category_getStructureById c ''road-intersection'' = Some (road_intersection m)"
    by (simp add: category_getStructureById_def)
  moreover have "category_getStructureById c ''nonexistent'' = None"
    using assms(3) by (force simp: category_getStructureById_def find_None_iff)
  ultimately show ?thesis by (simp add: road_intersection_def)
qed

theorem getStructureById_scenario_witness:
  "road_intersection road_template \<in> set (structures road_category) \<and>
   distinct (map sid (structures road_category)) \<and>
   ''nonexistent'' \<notin> set (map sid (structures road_category)) \<and>
   category_getStructureById road_category ''road-intersection'' =
     Some (road_intersection road_template) \<and>
   category_getStructureById road_category ''nonexistent'' = None"
proof -
  have 1: "road_intersection road_template \<in> set (structures road_category)"
    by (simp add: road_category_def)
  have 2: "distinct (map sid (structures road_category))"
    by (simp add: road_category_def)
  have 3: "''nonexistent'' \<notin> set (map sid (structures road_category))"
    by (simp add: road_category_def road_intersection_def)
  from getStructureById_scenario [OF 1 2 3] 1 2 3 show ?thesis by blast
qed

text \<open>
  C8. \<open>placeStructure\<close> throws \<open>PlotNotFound\<close> and leaves every plot as it was when no plot
  is assigned to the player; it throws \<open>StructureNotFound\<close> and leaves every plot as it was
  when the player has a plot and the id resolves to no structure. Otherwise it throws what
  \<open>addStructure\<close> throws on the player's plot, called with a new instance of the structure,
  the given transform and the flag unset, and afterwards the player's plot is the plot
  that call leaves while every other plot is as it was.
\<close>

theorem placeStructure_checks:
  "(Some p \<notin> set (map player plots) \<longrightarrow>
      placeStructure H catalog p structureId cframe structureUUID plots =
        Thrown (PlotNotFound (Name p)) plots) \<and>
   (Some p \<in> set (map player plots) \<and> getStructureById catalog structureId = None \<longrightarrow>
      placeStructure H catalog p structureId cframe structureUUID plots =
        Thrown (StructureNotFound structureId) plots) \<and>
   (\<forall>i s. getPlayersPlot p plots = Some i \<and> getStructureById catalog structureId = Some s \<longrightarrow>
      i < length plots \<and>
      player (plots ! i) = Some p \<and>
      thrown (placeStructure H catalog p structureId cframe structureUUID plots) =
        thrown (addStructure H
             (StructureInstance (case structureUUID of Some u \<Rightarrow> u | None \<Rightarrow> '''') s)
             cframe False (plots ! i)) \<and>
      state_of (placeStructure H catalog p structureId cframe structureUUID plots) =
        plots[i := state_of (addStructure H
             (StructureInstance (case structureUUID of Some u \<Rightarrow> u | None \<Rightarrow> '''') s)
             cframe False (plots ! i))])"
  using getPlayersPlot_None [of p plots]
  by (auto simp: placeStructure_def Let_def on_plot_thrown on_plot_state
      dest: getPlayersPlot_Some split: option.splits)

theorem placeStructure_checks_witness:
  "Some bob \<notin> set (map player [alice_plot]) \<and>
   placeStructure line_host [road_category] bob ''road-intersection'' 7 (Some ''b'') [alice_plot] =
     Thrown (PlotNotFound ''Bob'') [alice_plot] \<and>
   Some alice \<in> set (map player [alice_plot]) \<and>
   getStructureById [road_category] ''nonexistent'' = None \<and>
   placeStructure line_host [road_category] alice ''nonexistent'' 7 (Some ''b'') [alice_plot] =
     Thrown (StructureNotFound ''nonexistent'') [alice_plot] \<and>
   getPlayersPlot alice [alice_plot] = Some 0 \<and>
   getStructureById [road_category] ''road-intersection'' = Some (road_intersection road_template) \<and>
   thrown (placeStructure line_host [road_category] alice ''road-intersection'' 7 (Some ''b'')
     [alice_plot]) = None \<and>
   length (state_of (placeStructure line_host [road_category] alice ''road-intersection'' 7
     (Some ''b'') [alice_plot])) = 1 \<and>
   map fst (structureList (state_of (placeStructure line_host [road_category] alice
     ''road-intersection'' 7 (Some ''b'') [alice_plot]) ! 0)) = [''a'', ''b''] \<and>
   map (\<lambda>c. Pivot (snd c)) (GetChildren (plotInstance (state_of (placeStructure line_host
     [road_category] alice ''road-intersection'' 7 (Some ''b'') [alice_plot]) ! 0))) = [5, 7]"
proof -
  let ?r = "placeStructure line_host [road_category] alice ''road-intersection'' 7 (Some ''b'')
    [alice_plot]"
  let ?a = "addStructure line_host (new_road ''b'') 7 False alice_plot"
  note w = placeStructure_checks [of _ "[alice_plot]" line_host "[road_category]" _ 7 "Some ''b''"]
  have 1: "Some bob \<notin> set (map player [alice_plot])"
    by (simp add: world_defs)
  have 2: "Some alice \<in> set (map player [alice_plot])"
    by (simp add: world_defs)
  have 3: "getStructureById [road_category] ''nonexistent'' = None"
    by (simp add: category_getStructureById_def world_defs)
  have 4: "getPlayersPlot alice [alice_plot] = Some 0"
    by (simp add: world_defs)
  have 5: "getStructureById [road_category] ''road-intersection'' =
      Some (road_intersection road_template)"
    by (simp add: category_getStructureById_def world_defs)
  from w [of bob "''road-intersection''"] 1
  have a: "placeStructure line_host [road_category] bob ''road-intersection'' 7 (Some ''b'') [alice_plot] =
      Thrown (PlotNotFound ''Bob'') [alice_plot]"
    by (simp add: bob_def)
  from w [of alice "''nonexistent''"] 2 3
  have b: "placeStructure line_host [road_category] alice ''nonexistent'' 7 (Some ''b'') [alice_plot] =
      Thrown (StructureNotFound ''nonexistent'') [alice_plot]"
    by blast
  from w [of alice "''road-intersection''"] 4 5
  have c: "thrown ?r = thrown ?a \<and> state_of ?r = [alice_plot][0 := state_of ?a]"
    by (simp add: new_road_def)
  have t: "thrown ?r = None"
    using c add_at_7 by simp
  have s: "state_of ?r = [state_of ?a]"
    using c by simp
  have l: "length (state_of ?r) = 1"
    by (simp add: s)
  have k: "map fst (structureList (state_of ?r ! 0)) = [''a'', ''b'']"
    using add_at_7 by (simp add: s)
  have v: "map (\<lambda>c. Pivot (snd c)) (GetChildren (plotInstance (state_of ?r ! 0))) = [5, 7]"
    using add_at_7 by (simp add: s)
  from 1 a 2 3 b 4 5 t l k v show ?thesis by blast
qed

text \<open>
  C10. When \<open>structureUUID\<close> is omitted, the instance \<open>placeStructure\<close> creates has the empty
  string as its uuid, and a placement that succeeds leaves the plot's structure map with
  the keys it had and the key \<open>""\<close>: every such placement is registered under that one
  key.
\<close>

theorem placeStructure_default_uuid:
  assumes "getPlayersPlot p plots = Some i" and "getStructureById catalog structureId = Some s"
  shows "uuid (StructureInstance '''' s) = '''' \<and>
     placeStructure H catalog p structureId cframe None plots =
       on_plot i plots (addStructure H (StructureInstance '''' s) cframe False (plots ! i)) \<and>
     (\<forall>plots'. placeStructure H catalog p structureId cframe None plots = Done plots' \<longrightarrow>
        set (map fst (structureList (plots' ! i))) =
          insert '''' (set (map fst (structureList (plots ! i)))))"
proof -
  have i: "i < length plots" using getPlayersPlot_Some [OF assms(1)] by simp
  have u: "uuid (StructureInstance '''' s) = ''''" by (simp add: StructureInstance_def)
  have eq: "placeStructure H catalog p structureId cframe None plots =
       on_plot i plots (addStructure H (StructureInstance '''' s) cframe False (plots ! i))"
    using assms by (simp add: placeStructure_def)
  have "set (map fst (structureList (plots' ! i))) =
          insert '''' (set (map fst (structureList (plots ! i))))"
    if d: "placeStructure H catalog p structureId cframe None plots = Done plots'" for plots'
  proof (cases "addStructure H (StructureInstance '''' s) cframe False (plots ! i)")
    case (Done p')
    then have "plots' = plots[i := p']" using d eq by simp
    then show ?thesis
      using addStructure_Done_keys [OF Done] i u by simp
  next
    case (Thrown e p')
    then show ?thesis using d eq by simp
  qed
  then show ?thesis using u eq by blast
qed

theorem placeStructure_default_uuid_witness:
  "getPlayersPlot alice [alice_plot] = Some 0 \<and>
   getStructureById [road_category] ''road-intersection'' = Some (road_intersection road_template) \<and>
   thrown (placeStructure line_host [road_category] alice ''road-intersection'' 7 None [alice_plot]) =
     None \<and>
   set (map fst (structureList
     (state_of (placeStructure line_host [road_category] alice ''road-intersection'' 7 None
        [alice_plot]) ! 0))) = {'''', ''a''} \<and>
   map (map fst \<circ> structureList)
     (state_of (placeStructure line_host [road_category] alice ''road-intersection'' 9 None
        (state_of (placeStructure line_host [road_category] alice ''road-intersection'' 7 None
           [alice_plot])))) = [[''a'', '''']]"
proof -
  let ?r = "placeStructure line_host [road_category] alice ''road-intersection'' 7 None [alice_plot]"
  have 1: "getPlayersPlot alice [alice_plot] = Some 0"
    by (simp add: world_defs)
  have 2: "getStructureById [road_category] ''road-intersection'' =
      Some (road_intersection road_template)"
    by (simp add: category_getStructureById_def world_defs)
  have t: "thrown ?r = None"
    by (simp add: placeStructure_def category_getStructureById_def plot_defs world_defs)
  then have d: "?r = Done (state_of ?r)"
    by (cases ?r) simp_all
  from placeStructure_default_uuid [OF 1 2, of line_host 7] d
  have "set (map fst (structureList (state_of ?r ! 0))) =
      insert '''' (set (map fst (structureList ([alice_plot] ! 0))))"
    by blast
  then have 3: "set (map fst (structureList (state_of ?r ! 0))) = {'''', ''a''}"
    by (simp add: alice_plot_def)
  have 4: "map (map fst \<circ> structureList)
      (state_of (placeStructure line_host [road_category] alice ''road-intersection'' 9 None
         (state_of ?r))) = [[''a'', '''']]"
    by (simp add: placeStructure_def category_getStructureById_def plot_defs world_defs)
  from 1 2 t 3 4 show ?thesis by blast
qed

section \<open>Where the code departs from its description\<close>

text \<open>
  C2. \<open>unassignPlayer\<close> on Alice's plot returns normally, and afterwards the plot is still
  assigned to Alice and her instance is still an entry of the structure map: the method
  calls \<open>clear\<close> and writes neither \<open>player\<close> nor the container.
\<close>

theorem unassignPlayer_leaves_plot_assigned:
  "isAssigned alice_plot \<and>
   thrown (unassignPlayer alice_plot) = None \<and>
   isAssigned (state_of (unassignPlayer alice_plot)) \<and>
   getPlayer (state_of (unassignPlayer alice_plot)) = Some alice \<and>
   map fst (structureList (state_of (unassignPlayer alice_plot))) = [''a'']"
  by (simp add: unassignPlayer_def isAssigned_def getPlayer_def clear_def destroy_def
      plot_defs world_defs)

text \<open>
  C3. The oracle is asked about the template's primary part where the template rests,
  not about the requested transform. Alice's plot has an intersection at position 5; a
  hitbox at 5 collides there, yet \<open>addStructure\<close> at 5 succeeds and the folder then holds
  two objects at 5.
\<close>

theorem addStructure_queries_template_in_place:
  "PrimaryPart (model (its_structure (new_road ''b''))) =
     Some \<lparr>CFrame = 1000, Anchored = False, CanCollide = True\<rparr> \<and>
   hitboxIsCollidedInPlot line_host \<lparr>CFrame = 5, Anchored = False, CanCollide = True\<rparr>
     (plotInstance alice_plot) (getAllCharacters line_host) \<and>
   thrown (addStructure line_host (new_road ''b'') 5 False alice_plot) = None \<and>
   map (\<lambda>c. Pivot (snd c))
     (GetChildren (plotInstance (state_of (addStructure line_host (new_road ''b'') 5 False alice_plot)))) =
     [5, 5]"
  by (simp add: plot_defs world_defs)

end
